theory Spec2Isabelle
  imports Complex_Main "HOL-Library.Product_Lexorder" "HOL-Library.Multiset"
begin

section \<open>Numbers: floats with missing values\<close>

text \<open>
  The program computes on numpy float64 scalars. The embedding keeps the special values of
  IEEE-754 that decide the control flow of the program (NaN marks a missing price or score,
  a division by zero gives an infinity or NaN and never raises), and takes the finite values
  as exact reals: rounding, overflow and the sign of zero are outside the model.
\<close>

datatype fl = Fin real | PInf | MInf | NaN

datatype py_error = IndexError | KeyError | ZeroDivisionError | ValueError

definition isna :: "fl \<Rightarrow> bool" where
  "isna x = (x = NaN)"

fun fneg :: "fl \<Rightarrow> fl" where
  "fneg (Fin a) = Fin (- a)"
| "fneg PInf = MInf"
| "fneg MInf = PInf"
| "fneg NaN = NaN"

fun fadd :: "fl \<Rightarrow> fl \<Rightarrow> fl" where
  "fadd (Fin a) (Fin b) = Fin (a + b)"
| "fadd NaN y = NaN"
| "fadd x NaN = NaN"
| "fadd PInf MInf = NaN"
| "fadd MInf PInf = NaN"
| "fadd PInf y = PInf"
| "fadd MInf y = MInf"
| "fadd x PInf = PInf"
| "fadd x MInf = MInf"

definition fsub :: "fl \<Rightarrow> fl \<Rightarrow> fl" where
  "fsub x y = fadd x (fneg y)"

fun fsign :: "fl \<Rightarrow> int" where
  "fsign (Fin a) = (if a < 0 then - 1 else if a = 0 then 0 else 1)"
| "fsign PInf = 1"
| "fsign MInf = - 1"
| "fsign NaN = 0"

fun fmul :: "fl \<Rightarrow> fl \<Rightarrow> fl" where
  "fmul (Fin a) (Fin b) = Fin (a * b)"
| "fmul NaN y = NaN"
| "fmul x NaN = NaN"
| "fmul x y = (let s = fsign x * fsign y in if s = 0 then NaN else if 0 < s then PInf else MInf)"

fun fdiv :: "fl \<Rightarrow> fl \<Rightarrow> fl" where
  "fdiv (Fin a) (Fin b) =
     (if b \<noteq> 0 then Fin (a / b) else if a = 0 then NaN else if 0 < a then PInf else MInf)"
| "fdiv NaN y = NaN"
| "fdiv x NaN = NaN"
| "fdiv (Fin a) y = Fin 0"
| "fdiv x (Fin b) = (if fsign x * (if b < 0 then - 1 else 1) < 0 then MInf else PInf)"
| "fdiv x y = NaN"

text \<open>The comparison \<open>x < y\<close> of floats: false as soon as one side is NaN.\<close>

fun flt :: "fl \<Rightarrow> fl \<Rightarrow> bool" where
  "flt (Fin a) (Fin b) = (a < b)"
| "flt NaN y = False"
| "flt x NaN = False"
| "flt x MInf = False"
| "flt PInf y = False"
| "flt x y = True"


fun fsqrt :: "fl \<Rightarrow> fl" where
  "fsqrt (Fin a) = (if a < 0 then NaN else Fin (sqrt a))"
| "fsqrt PInf = PInf"
| "fsqrt MInf = NaN"
| "fsqrt NaN = NaN"

text \<open>Python's \<open>sum\<close>: starts at 0 and adds from the left.\<close>

definition fsum :: "fl list \<Rightarrow> fl" where
  "fsum xs = foldl fadd (Fin 0) xs"

section \<open>Tables\<close>

text \<open>
  A pandas Series is an ordered list of labels with a value for each; a DataFrame is a list
  of column labels and one row per date. Dates are the positions \<open>0, 1, ...\<close> of the rows
  (the date index is ascending and unique, so \<open>df.loc[df.index[t], s]\<close> reads row \<open>t\<close>).
  Reading a label that is not a column raises KeyError, a position past the end IndexError.
  The column labels of a table are pairwise distinct, as in the tables the program builds
  from its list of tickers.
\<close>

record 'a series =
  s_index :: "'a list"
  s_value :: "'a \<Rightarrow> fl"

record 'a frame =
  columns :: "'a list"
  rows :: "('a \<Rightarrow> fl) list"

definition iloc :: "'a frame \<Rightarrow> nat \<Rightarrow> py_error + 'a series" where
  "iloc df t =
     (if t < length (rows df) then Inr \<lparr>s_index = columns df, s_value = rows df ! t\<rparr>
      else Inl IndexError)"

definition loc :: "'a frame \<Rightarrow> nat \<Rightarrow> 'a \<Rightarrow> py_error + fl" where
  "loc df t stock =
     (if \<not> t < length (rows df) then Inl IndexError
      else if stock \<notin> set (columns df) then Inl KeyError
      else Inr ((rows df ! t) stock))"

section \<open>Ranking\<close>

text \<open>
  \<open>Series.sort_values(ascending=False)\<close> with the defaults \<open>kind='quicksort'\<close> and
  \<open>na_position='last'\<close>: pandas splits the positions into those with a value and those with
  NaN, reverses the values, sorts them ascending with numpy's \<open>argsort\<close>, reverses the
  result and appends the NaN positions in their original order (\<open>nargsort\<close>); the sorted
  series takes the labels at these positions. The numpy primitive is a
  parameter of the model: it returns the positions of its argument in ascending order of the
  values, and for \<open>kind='quicksort'\<close> the library does not fix the order of equal values.
\<close>

definition nargsort_desc :: "(fl list \<Rightarrow> nat list) \<Rightarrow> fl list \<Rightarrow> nat list" where
  "nargsort_desc argsort items =
     (let idx = [0..<length items];
          non_nan_idx = filter (\<lambda>i. \<not> isna (items ! i)) idx;
          nan_idx = filter (\<lambda>i. isna (items ! i)) idx;
          non_nans = rev (map (\<lambda>i. items ! i) non_nan_idx);
          r_idx = rev non_nan_idx;
          indexer = rev (map (\<lambda>j. r_idx ! j) (argsort non_nans))
      in indexer @ nan_idx)"

definition sort_values_desc :: "(fl list \<Rightarrow> nat list) \<Rightarrow> 'a series \<Rightarrow> 'a list" where
  "sort_values_desc argsort s =
     map (\<lambda>i. s_index s ! i) (nargsort_desc argsort (map (s_value s) (s_index s)))"

definition head :: "nat \<Rightarrow> 'b list \<Rightarrow> 'b list" where
  "head n xs = take n xs"

text \<open>
  The order of the non-missing floats, as a key into a linear order, and two sorting
  primitives that both return the positions in ascending order of the values: insertion
  sort, which keeps equal values in their order of arrival, and the same sort run from the
  right end, which does not.
\<close>

fun fl_key :: "fl \<Rightarrow> int \<times> real" where
  "fl_key (Fin a) = (0, a)"
| "fl_key PInf = (1, 0)"
| "fl_key MInf = (- 1, 0)"
| "fl_key NaN = (2, 0)"

definition argsort_stable :: "fl list \<Rightarrow> nat list" where
  "argsort_stable xs = sort_key (\<lambda>i. fl_key (xs ! i)) [0..<length xs]"

definition argsort_backward :: "fl list \<Rightarrow> nat list" where
  "argsort_backward xs = sort_key (\<lambda>i. fl_key (xs ! i)) (rev [0..<length xs])"

section \<open>The module's constants\<close>

text \<open>
  The functions read the module constants \<open>INITIAL_CAPITAL\<close> and \<open>TOP_N\<close>; together with
  the sorting primitive of the library they form the environment that every function takes.
\<close>

record env =
  argsort :: "fl list \<Rightarrow> nat list"
  INITIAL_CAPITAL :: real
  TOP_N :: nat

definition module_env :: "(fl list \<Rightarrow> nat list) \<Rightarrow> env" where
  "module_env srt = \<lparr>argsort = srt, INITIAL_CAPITAL = 100000, TOP_N = 2\<rparr>"

section \<open>The output table of a strategy\<close>

record df_row =
  Date :: nat
  Portfolio_Value :: fl
  Daily_Return :: fl

type_synonym portfolio_df = "df_row list"

text \<open>\<open>pd.DataFrame({...})\<close> from three columns: pandas refuses columns of different lengths.\<close>

definition make_df :: "nat list \<Rightarrow> fl list \<Rightarrow> fl list \<Rightarrow> py_error + portfolio_df" where
  "make_df ds vs rs =
     (if length ds = length vs \<and> length vs = length rs
      then Inr (map (\<lambda>(d, v, r). \<lparr>Date = d, Portfolio_Value = v, Daily_Return = r\<rparr>)
                  (zip ds (zip vs rs)))
      else Inl ValueError)"

section \<open>The sentiment-based strategy\<close>

text \<open>
  The state of the loop of \<open>sentiment_trading_strategy\<close>: the three lists it appends to,
  and the lines it prints (the date, the new value and the weight of every held stock).
\<close>

record 'a sim_state =
  portfolio_value :: "fl list"
  daily_returns :: "fl list"
  holdings :: "'a list list"
  report :: "(nat \<times> fl \<times> ('a \<times> fl) list) list"

text \<open>The list comprehension of \<open>valid_stocks\<close>: a lookup that raises ends it.\<close>

fun valid_filter :: "'a frame \<Rightarrow> nat \<Rightarrow> 'a list \<Rightarrow> py_error + 'a list" where
  "valid_filter price_data t [] = Inr []"
| "valid_filter price_data t (stock # rest) =
     (case loc price_data t stock of
        Inl e \<Rightarrow> Inl e
      | Inr p \<Rightarrow>
         (case valid_filter price_data t rest of
            Inl e \<Rightarrow> Inl e
          | Inr vs \<Rightarrow> Inr (if \<not> isna p then stock # vs else vs)))"

text \<open>
  The inner loop over the held stocks, with the running \<open>portfolio_return\<close> as accumulator
  and \<open>n = len(valid_stocks)\<close>.
\<close>

fun return_loop :: "'a frame \<Rightarrow> nat \<Rightarrow> nat \<Rightarrow> 'a list \<Rightarrow> fl \<Rightarrow> py_error + fl" where
  "return_loop price_data t n [] portfolio_return = Inr portfolio_return"
| "return_loop price_data t n (stock # rest) portfolio_return =
     (case loc price_data t stock of
        Inl e \<Rightarrow> Inl e
      | Inr price_t \<Rightarrow>
         (case loc price_data (t + 1) stock of
            Inl e \<Rightarrow> Inl e
          | Inr price_t1 \<Rightarrow>
             if isna price_t1 then return_loop price_data t n rest portfolio_return
             else
               let stock_return = fdiv (fsub price_t1 price_t) price_t
               in return_loop price_data t n rest
                    (fadd portfolio_return (fdiv stock_return (Fin (real n))))))"

text \<open>
  One pass of the outer loop, for day \<open>t\<close>. The dictionary \<open>shares\<close> of the source is
  computed and never read; its divisions are numpy divisions, which do not raise.
\<close>

definition sentiment_step ::
  "env \<Rightarrow> 'a frame \<Rightarrow> 'a frame \<Rightarrow> nat \<Rightarrow> 'a sim_state \<Rightarrow> py_error + 'a sim_state" where
  "sentiment_step e price_data sentiment_data t st =
     (case iloc sentiment_data t of
        Inl err \<Rightarrow> Inl err
      | Inr sentiment_today \<Rightarrow>
         let top_stocks = head (TOP_N e) (sort_values_desc (argsort e) sentiment_today) in
         (case valid_filter price_data t top_stocks of
            Inl err \<Rightarrow> Inl err
          | Inr valid_stocks \<Rightarrow>
             if length valid_stocks = 0 then Inr st
             else
               let allocation =
                     fdiv (last (portfolio_value st)) (Fin (real (length valid_stocks)))
               in (case return_loop price_data t (length valid_stocks) valid_stocks (Fin 0) of
                     Inl err \<Rightarrow> Inl err
                   | Inr portfolio_return \<Rightarrow>
                      let new_value =
                            fmul (last (portfolio_value st)) (fadd (Fin 1) portfolio_return);
                          weights = map (\<lambda>stock. (stock, fdiv allocation new_value)) valid_stocks
                      in Inr \<lparr>portfolio_value = portfolio_value st @ [new_value],
                              daily_returns = daily_returns st @ [portfolio_return],
                              holdings = holdings st @ [valid_stocks],
                              report = report st @ [(t + 1, new_value, weights)]\<rparr>)))"

fun sentiment_loop ::
  "env \<Rightarrow> 'a frame \<Rightarrow> 'a frame \<Rightarrow> nat list \<Rightarrow> 'a sim_state \<Rightarrow> py_error + 'a sim_state" where
  "sentiment_loop e price_data sentiment_data [] st = Inr st"
| "sentiment_loop e price_data sentiment_data (t # ts) st =
     (case sentiment_step e price_data sentiment_data t st of
        Inl err \<Rightarrow> Inl err
      | Inr st' \<Rightarrow> sentiment_loop e price_data sentiment_data ts st')"

definition init_state :: "env \<Rightarrow> 'a sim_state" where
  "init_state e =
     \<lparr>portfolio_value = [Fin (INITIAL_CAPITAL e)], daily_returns = [], holdings = [],
      report = []\<rparr>"

text \<open>
  The result: the table, the list \<open>holdings\<close> and the printed lines. The first print reads
  \<open>price_data.index[0]\<close>, which raises on a table without rows.
\<close>

record 'a strategy_result =
  r_df :: portfolio_df
  r_holdings :: "'a list list"
  r_report :: "(nat \<times> fl \<times> ('a \<times> fl) list) list"

definition sentiment_trading_strategy ::
  "env \<Rightarrow> 'a frame \<Rightarrow> 'a frame \<Rightarrow> py_error + 'a strategy_result" where
  "sentiment_trading_strategy e price_data sentiment_data =
     (if rows price_data = [] then Inl IndexError
      else
        (case sentiment_loop e price_data sentiment_data [0..<length (rows price_data) - 1]
                (init_state e) of
           Inl err \<Rightarrow> Inl err
         | Inr st \<Rightarrow>
            (case make_df [0..<min (length (portfolio_value st)) (length (rows price_data))]
                    (portfolio_value st) (Fin 0 # daily_returns st) of
               Inl err \<Rightarrow> Inl err
             | Inr df \<Rightarrow> Inr \<lparr>r_df = df, r_holdings = holdings st, r_report = report st\<rparr>)))"

section \<open>The buy-and-hold strategy\<close>







section \<open>Metrics\<close>

text \<open>
  The pandas reductions skip missing values: \<open>mean\<close> and \<open>min\<close> of the values that are
  not NaN (NaN when there is none), \<open>std\<close> with one degree of freedom removed (NaN for
  fewer than two values), \<open>cummax\<close> with the missing positions left missing.
\<close>

definition dropna :: "fl list \<Rightarrow> fl list" where
  "dropna xs = filter (\<lambda>x. \<not> isna x) xs"

definition mean :: "fl list \<Rightarrow> fl" where
  "mean xs = (let vs = dropna xs in fdiv (fsum vs) (Fin (real (length vs))))"

definition std :: "fl list \<Rightarrow> fl" where
  "std xs =
     (let vs = dropna xs; count = length vs in
      if count \<le> 1 then NaN
      else
        let avg = fdiv (fsum vs) (Fin (real count));
            sqr = map (\<lambda>v. fmul (fsub avg v) (fsub avg v)) vs
        in fsqrt (fdiv (fsum sqr) (Fin (real (count - 1)))))"

definition fmax :: "fl \<Rightarrow> fl \<Rightarrow> fl" where
  "fmax x y = (if flt x y then y else x)"

definition fmin :: "fl \<Rightarrow> fl \<Rightarrow> fl" where
  "fmin x y = (if flt y x then y else x)"

fun accumulate_max :: "fl \<Rightarrow> fl list \<Rightarrow> fl list" where
  "accumulate_max m [] = []"
| "accumulate_max m (x # xs) = fmax m x # accumulate_max (fmax m x) xs"

definition cummax :: "fl list \<Rightarrow> fl list" where
  "cummax xs =
     map (\<lambda>(x, m). if isna x then NaN else m)
       (zip xs (accumulate_max MInf (map (\<lambda>x. if isna x then MInf else x) xs)))"

definition min_skipna :: "fl list \<Rightarrow> fl" where
  "min_skipna xs = (case dropna xs of [] \<Rightarrow> NaN | v # vs \<Rightarrow> foldl fmin v vs)"

text \<open>
  \<open>x ** y\<close> for a float \<open>x\<close> and a finite positive exponent \<open>y\<close> (here \<open>252 / len\<close>): a
  negative base has a power only for an integer exponent.
\<close>

fun fpow :: "fl \<Rightarrow> real \<Rightarrow> fl" where
  "fpow (Fin a) y =
     (if 0 < a then Fin (a powr y)
      else if a = 0 then Fin 0
      else if y = of_int \<lfloor>y\<rfloor> then Fin (a ^ nat \<lfloor>y\<rfloor>)
      else NaN)"
| "fpow PInf y = PInf"
| "fpow MInf y = (if y = of_int \<lfloor>y\<rfloor> \<and> odd \<lfloor>y\<rfloor> then MInf else PInf)"
| "fpow NaN y = NaN"

record metrics =
  Total_Return :: fl
  Annualized_Return :: fl
  Sharpe_Ratio :: fl
  Max_Drawdown :: fl
  Volatility :: fl

definition risk_free_rate_default :: fl where
  "risk_free_rate_default = Fin (0.06 / 252)"

definition max_drawdown_of :: "fl list \<Rightarrow> fl" where
  "max_drawdown_of values =
     (let rolling_max = cummax values;
          drawdowns = map (\<lambda>(v, m). fdiv (fsub v m) m) (zip values rolling_max)
      in min_skipna drawdowns)"

definition sharpe_ratio_of :: "fl list \<Rightarrow> fl \<Rightarrow> fl" where
  "sharpe_ratio_of daily risk_free_rate =
     (let excess_returns = map (\<lambda>r. fsub r risk_free_rate) daily in
      if std excess_returns \<noteq> Fin 0
      then fmul (fdiv (mean excess_returns) (std excess_returns)) (Fin (sqrt 252))
      else Fin 0)"

text \<open>
  \<open>calculate_metrics\<close>: \<open>.iloc[-1]\<close> raises on an empty table; nothing else does (the
  table then has a row, so \<open>252 / len(daily_returns)\<close> does not divide by zero).
\<close>

definition calculate_metrics :: "env \<Rightarrow> portfolio_df \<Rightarrow> fl \<Rightarrow> py_error + metrics" where
  "calculate_metrics e portfolio_df risk_free_rate =
     (if portfolio_df = [] then Inl IndexError
      else
        let values = map Portfolio_Value portfolio_df;
            total_return =
              fdiv (fsub (last values) (Fin (INITIAL_CAPITAL e))) (Fin (INITIAL_CAPITAL e));
            daily = map Daily_Return portfolio_df;
            annualized_return =
              fsub (fpow (fadd (Fin 1) total_return) (252 / real (length daily))) (Fin 1)
        in Inr \<lparr>Total_Return = total_return,
                Annualized_Return = annualized_return,
                Sharpe_Ratio = sharpe_ratio_of daily risk_free_rate,
                Max_Drawdown = max_drawdown_of values,
                Volatility = fmul (std daily) (Fin (sqrt 252))\<rparr>)"

section \<open>Notions used by the properties\<close>

text \<open>
  What the library promises of \<open>argsort\<close>: the result is a permutation of the positions,
  in ascending order of the values; a stable sort also keeps equal values in their order.
\<close>

definition argsort_perm :: "(fl list \<Rightarrow> nat list) \<Rightarrow> bool" where
  "argsort_perm f \<longleftrightarrow> (\<forall>xs. mset (f xs) = mset [0..<length xs])"

definition argsort_ascending :: "(fl list \<Rightarrow> nat list) \<Rightarrow> bool" where
  "argsort_ascending f \<longleftrightarrow>
     (\<forall>xs. NaN \<notin> set xs \<longrightarrow> sorted_wrt (\<lambda>i j. \<not> flt (xs ! j) (xs ! i)) (f xs))"


text \<open>
  The two tables of a run fit together: the price table has a row, the score table has the
  same number of rows and the same, distinct, columns.
\<close>

definition aligned :: "'a frame \<Rightarrow> 'a frame \<Rightarrow> bool" where
  "aligned price_data sentiment_data \<longleftrightarrow>
     rows price_data \<noteq> [] \<and>
     length (rows sentiment_data) = length (rows price_data) \<and>
     columns sentiment_data = columns price_data \<and>
     distinct (columns price_data)"

text \<open>The stocks selected and the stocks held on day \<open>t\<close>, as the loop computes them.\<close>

definition top_stocks_at :: "env \<Rightarrow> 'a frame \<Rightarrow> nat \<Rightarrow> 'a list" where
  "top_stocks_at e sentiment_data t =
     head (TOP_N e)
       (sort_values_desc (argsort e)
          \<lparr>s_index = columns sentiment_data, s_value = rows sentiment_data ! t\<rparr>)"

definition valid_stocks_at :: "env \<Rightarrow> 'a frame \<Rightarrow> 'a frame \<Rightarrow> nat \<Rightarrow> 'a list" where
  "valid_stocks_at e price_data sentiment_data t =
     filter (\<lambda>stock. \<not> isna ((rows price_data ! t) stock)) (top_stocks_at e sentiment_data t)"

text \<open>
  What one held stock adds to the return of the step from \<open>t\<close> to \<open>t + 1\<close> when \<open>n\<close> stocks
  are held: nothing when its next price is missing, its return over \<open>n\<close> otherwise.
\<close>

definition contribution :: "'a frame \<Rightarrow> nat \<Rightarrow> nat \<Rightarrow> 'a \<Rightarrow> fl" where
  "contribution price_data t n stock =
     (let price_t = (rows price_data ! t) stock;
          price_t1 = (rows price_data ! (t + 1)) stock
      in if isna price_t1 then Fin 0
         else fdiv (fdiv (fsub price_t1 price_t) price_t) (Fin (real n)))"

text \<open>The days of a run on which at least one stock is held.\<close>

definition moving_days :: "env \<Rightarrow> 'a frame \<Rightarrow> 'a frame \<Rightarrow> nat list \<Rightarrow> nat list" where
  "moving_days e price_data sentiment_data ts =
     filter (\<lambda>t. valid_stocks_at e price_data sentiment_data t \<noteq> []) ts"





text \<open>
  The drawdowns of a list of reals from the running maximum \<open>m\<close>, as real numbers.
\<close>

fun drawdowns_from :: "real \<Rightarrow> real list \<Rightarrow> real list" where
  "drawdowns_from m [] = []"
| "drawdowns_from m (x # xs) = (x - max m x) / max m x # drawdowns_from (max m x) xs"

section \<open>Example tables\<close>


definition prices_drop :: "string frame" where
  "prices_drop =
     \<lparr>columns = [''A'', ''B'', ''C''],
      rows = [(\<lambda>s. if s = ''A'' then Fin 10 else if s = ''B'' then Fin 20 else Fin 5),
              (\<lambda>s. if s = ''A'' then NaN else if s = ''B'' then Fin 22 else Fin 5)]\<rparr>"

definition prices_gap :: "string frame" where
  "prices_gap =
     \<lparr>columns = [''A'', ''B'', ''C''],
      rows = [(\<lambda>s. if s = ''A'' then NaN else if s = ''B'' then NaN else Fin 5),
              (\<lambda>s. if s = ''A'' then Fin 10 else if s = ''B'' then Fin 20 else Fin 5)]\<rparr>"

definition prices_late :: "string frame" where
  "prices_late =
     \<lparr>columns = [''A'', ''B'', ''C''],
      rows = [(\<lambda>s. if s = ''A'' then NaN else if s = ''B'' then NaN else Fin 5),
              (\<lambda>s. if s = ''A'' then Fin 10 else if s = ''B'' then Fin 20 else Fin 5),
              (\<lambda>s. if s = ''A'' then Fin 11 else if s = ''B'' then Fin 19 else Fin 5)]\<rparr>"



text \<open>
  Score tables of the same three stocks: A before B before C, on two and on three dates;
  only B with a score; only A without one; B and C with the same score.
\<close>

definition scores_plain :: "string frame" where
  "scores_plain =
     \<lparr>columns = [''A'', ''B'', ''C''],
      rows = [(\<lambda>s. if s = ''A'' then Fin 0.9 else if s = ''B'' then Fin 0.5 else Fin 0.1),
              (\<lambda>s. if s = ''A'' then Fin 0.9 else if s = ''B'' then Fin 0.5 else Fin 0.1)]\<rparr>"

definition scores_three :: "string frame" where
  "scores_three =
     \<lparr>columns = [''A'', ''B'', ''C''],
      rows = [(\<lambda>s. if s = ''A'' then Fin 0.9 else if s = ''B'' then Fin 0.5 else Fin 0.1),
              (\<lambda>s. if s = ''A'' then Fin 0.9 else if s = ''B'' then Fin 0.5 else Fin 0.1),
              (\<lambda>s. if s = ''A'' then Fin 0.9 else if s = ''B'' then Fin 0.5 else Fin 0.1)]\<rparr>"




text \<open>Two value tables: a rising one, and one with constant values and returns.\<close>

definition df_rising :: portfolio_df where
  "df_rising =
     [\<lparr>Date = 0, Portfolio_Value = Fin 100000, Daily_Return = Fin 0\<rparr>,
      \<lparr>Date = 1, Portfolio_Value = Fin 102500, Daily_Return = Fin (1 / 40)\<rparr>]"


section \<open>Basic facts\<close>


subsection \<open>Lookups and the inner loops of the ranked simulator\<close>

lemma fadd_zero_right: "fadd x (Fin 0) = x"
  by (cases x) simp_all

lemma fadd_zero_left: "fadd (Fin 0) x = x"
  by (cases x) simp_all

lemma loc_ok:
  "t < length (rows df) \<Longrightarrow> stock \<in> set (columns df) \<Longrightarrow> loc df t stock = Inr ((rows df ! t) stock)"
  by (simp add: loc_def)

lemma valid_filter_ok:
  "t < length (rows P) \<Longrightarrow> set ss \<subseteq> set (columns P) \<Longrightarrow>
   valid_filter P t ss = Inr (filter (\<lambda>s. \<not> isna ((rows P ! t) s)) ss)"
  by (induction ss) (simp_all add: loc_ok)

lemma return_loop_ok:
  "t + 1 < length (rows P) \<Longrightarrow> set ss \<subseteq> set (columns P) \<Longrightarrow>
   return_loop P t n ss acc = Inr (foldl fadd acc (map (contribution P t n) ss))"
proof (induction ss arbitrary: acc)
  case Nil
  then show ?case by simp
next
  case (Cons s ss)
  then show ?case
    by (simp add: loc_ok contribution_def Let_def fadd_zero_right)
qed

subsection \<open>The ranking is a permutation of the columns\<close>

lemma nargsort_desc_perm:
  assumes "argsort_perm srt"
  shows "mset (nargsort_desc srt items) = mset [0..<length items]"
proof -
  define nn where "nn = filter (\<lambda>i. \<not> isna (items ! i)) [0..<length items]"
  define vals where "vals = rev (map (\<lambda>i. items ! i) nn)"
  have len: "length vals = length (rev nn)" by (simp add: vals_def)
  have "mset (srt vals) = mset [0..<length vals]"
    using assms unfolding argsort_perm_def by blast
  then have "mset (map (\<lambda>j. rev nn ! j) (srt vals)) = image_mset (\<lambda>j. rev nn ! j) (mset [0..<length vals])"
    by (simp only: mset_map)
  also have "\<dots> = mset (map (\<lambda>j. rev nn ! j) [0..<length (rev nn)])"
    by (simp only: len mset_map)
  also have "\<dots> = mset (rev nn)" by (simp only: map_nth)
  finally have "mset (map (\<lambda>j. rev nn ! j) (srt vals)) = mset nn" by simp
  moreover have "mset nn + mset (filter (\<lambda>i. isna (items ! i)) [0..<length items]) =
      mset [0..<length items]"
    unfolding nn_def mset_filter
    using multiset_partition[of "mset [0..<length items]" "\<lambda>i. \<not> isna (items ! i)"]
    by (simp del: mset_upt)
  ultimately show ?thesis
    by (simp add: nargsort_desc_def Let_def nn_def vals_def del: mset_upt)
qed

lemma sort_values_desc_perm:
  assumes "argsort_perm srt"
  shows "mset (sort_values_desc srt s) = mset (s_index s)"
proof -
  have "mset (nargsort_desc srt (map (s_value s) (s_index s))) = mset [0..<length (s_index s)]"
    using nargsort_desc_perm[OF assms, of "map (s_value s) (s_index s)"] by (simp only: length_map)
  then have "mset (sort_values_desc srt s) = image_mset (\<lambda>i. s_index s ! i) (mset [0..<length (s_index s)])"
    unfolding sort_values_desc_def by (simp only: mset_map)
  also have "\<dots> = mset (map (\<lambda>i. s_index s ! i) [0..<length (s_index s)])" by (simp only: mset_map)
  also have "\<dots> = mset (s_index s)" by (simp only: map_nth)
  finally show ?thesis .
qed

lemma top_stocks_subset:
  assumes "argsort_perm (argsort e)"
  shows "set (top_stocks_at e S t) \<subseteq> set (columns S)"
proof -
  have "set (sort_values_desc (argsort e) \<lparr>s_index = columns S, s_value = rows S ! t\<rparr>) = set (columns S)"
    using mset_eq_setD[OF sort_values_desc_perm[OF assms, of "\<lparr>s_index = columns S, s_value = rows S ! t\<rparr>"]]
    by simp
  then show ?thesis
    unfolding top_stocks_at_def head_def using set_take_subset by fastforce
qed


subsection \<open>One step and the whole loop\<close>

lemma sentiment_step_char:
  assumes "argsort_perm (argsort e)" and "t + 1 < length (rows P)" and "t < length (rows S)"
    and "set (columns S) \<subseteq> set (columns P)"
  shows "sentiment_step e P S t st =
     (let valid = valid_stocks_at e P S t in
      if valid = [] then Inr st
      else
        let r = fsum (map (contribution P t (length valid)) valid);
            nv = fmul (last (portfolio_value st)) (fadd (Fin 1) r);
            al = fdiv (last (portfolio_value st)) (Fin (real (length valid)))
        in Inr \<lparr>portfolio_value = portfolio_value st @ [nv],
                daily_returns = daily_returns st @ [r],
                holdings = holdings st @ [valid],
                report = report st @ [(t + 1, nv, map (\<lambda>s. (s, fdiv al nv)) valid)]\<rparr>)"
proof -
  have top: "set (top_stocks_at e S t) \<subseteq> set (columns P)"
    using top_stocks_subset[OF assms(1), of S t] assms(4) by blast
  have vf: "valid_filter P t (top_stocks_at e S t) = Inr (valid_stocks_at e P S t)"
    using valid_filter_ok[of t P "top_stocks_at e S t"] assms(2) top
    by (simp add: valid_stocks_at_def)
  have sub: "set (valid_stocks_at e P S t) \<subseteq> set (columns P)"
    using top by (auto simp: valid_stocks_at_def)
  have rl: "return_loop P t n (valid_stocks_at e P S t) (Fin 0) =
      Inr (fsum (map (contribution P t n) (valid_stocks_at e P S t)))" for n
    using return_loop_ok[OF assms(2) sub] by (simp add: fsum_def)
  have il: "iloc S t = Inr \<lparr>s_index = columns S, s_value = rows S ! t\<rparr>"
    using assms(3) by (simp add: iloc_def)
  show ?thesis
    unfolding sentiment_step_def il
    by (simp add: Let_def vf rl flip: top_stocks_at_def)
qed

lemma sentiment_loop_lengths:
  assumes "argsort_perm (argsort e)" and "set (columns S) \<subseteq> set (columns P)"
    and "\<forall>t\<in>set ts. t + 1 < length (rows P) \<and> t < length (rows S)"
  shows "\<exists>st'. sentiment_loop e P S ts st = Inr st' \<and>
     length (portfolio_value st') = length (portfolio_value st) + length (moving_days e P S ts) \<and>
     length (daily_returns st') = length (daily_returns st) + length (moving_days e P S ts) \<and>
     length (holdings st') = length (holdings st) + length (moving_days e P S ts) \<and>
     length (report st') = length (report st) + length (moving_days e P S ts)"
  using assms(3)
proof (induction ts arbitrary: st)
  case Nil
  then show ?case by (simp add: moving_days_def)
next
  case (Cons t ts)
  have step: "sentiment_step e P S t st =
     (let valid = valid_stocks_at e P S t in
      if valid = [] then Inr st
      else
        let r = fsum (map (contribution P t (length valid)) valid);
            nv = fmul (last (portfolio_value st)) (fadd (Fin 1) r);
            al = fdiv (last (portfolio_value st)) (Fin (real (length valid)))
        in Inr \<lparr>portfolio_value = portfolio_value st @ [nv],
                daily_returns = daily_returns st @ [r],
                holdings = holdings st @ [valid],
                report = report st @ [(t + 1, nv, map (\<lambda>s. (s, fdiv al nv)) valid)]\<rparr>)"
    using sentiment_step_char[OF assms(1) _ _ assms(2), of t st] Cons.prems by simp
  have rest: "\<forall>t\<in>set ts. t + 1 < length (rows P) \<and> t < length (rows S)"
    using Cons.prems by simp
  show ?case
  proof (cases "valid_stocks_at e P S t = []")
    case True
    then show ?thesis
      using Cons.IH[OF rest, of st] step by (simp add: moving_days_def)
  next
    case False
    then obtain st1 where s1: "sentiment_step e P S t st = Inr st1"
      and l1: "length (portfolio_value st1) = length (portfolio_value st) + 1"
        "length (daily_returns st1) = length (daily_returns st) + 1"
        "length (holdings st1) = length (holdings st) + 1"
        "length (report st1) = length (report st) + 1"
      using step by (simp add: Let_def)
    show ?thesis
      using Cons.IH[OF rest, of st1] s1 l1 False by (simp add: moving_days_def)
  qed
qed


lemma argsort_stable_perm: "argsort_perm argsort_stable"
  by (simp add: argsort_perm_def argsort_stable_def del: mset_upt)

lemma argsort_backward_perm: "argsort_perm argsort_backward"
  by (simp add: argsort_perm_def argsort_backward_def del: mset_upt)

subsection \<open>Bounds on the return of a step\<close>




lemma env_perm: "argsort_perm (argsort (module_env argsort_stable))"
  by (simp add: module_env_def argsort_stable_perm)

subsection \<open>Steps that return, and positive values\<close>








subsection \<open>The buy-and-hold loop, row by row\<close>





















subsection \<open>Drawdowns and the standard deviation on finite values\<close>

lemma fmax_Fin: "fmax (Fin a) (Fin b) = Fin (max a b)"
  by (simp add: fmax_def max_def)

lemma fmin_Fin: "fmin (Fin a) (Fin b) = Fin (min a b)"
  by (simp add: fmin_def min_def)

lemma dropna_Fin: "dropna (map Fin rs) = map Fin rs"
  by (induction rs) (simp_all add: dropna_def isna_def)

lemma drawdowns_Fin:
  assumes "\<forall>x\<in>set rs. 0 < x"
  shows "map (\<lambda>(v, m). fdiv (fsub v m) m)
           (zip (map Fin rs)
              (map (\<lambda>(x, m). if isna x then NaN else m)
                 (zip (map Fin rs) (accumulate_max (Fin m) (map Fin rs))))) =
         map Fin (drawdowns_from m rs)"
  using assms
proof (induction rs arbitrary: m)
  case Nil
  then show ?case by simp
next
  case (Cons x xs)
  have "max m x \<noteq> 0" using Cons.prems by (simp add: max_def)
  then show ?case
    using Cons by (simp add: fmax_Fin isna_def fsub_def)
qed

lemma drawdowns_from_sign:
  assumes "\<forall>x\<in>set rs. 0 < x"
  shows "(\<forall>d\<in>set (drawdowns_from m rs). d \<le> 0) \<and>
         ((\<forall>d\<in>set (drawdowns_from m rs). d = 0) \<longleftrightarrow> sorted (m # rs))"
  using assms
proof (induction rs arbitrary: m)
  case Nil
  then show ?case by simp
next
  case (Cons x xs)
  have pos: "0 < max m x" using Cons.prems by (simp add: max_def)
  have le: "(x - max m x) / max m x \<le> 0"
    using pos by (simp add: divide_le_0_iff)
  have z: "(x - max m x) / max m x = 0 \<longleftrightarrow> m \<le> x"
    using pos by (auto simp: max_def)
  have ih: "(\<forall>d\<in>set (drawdowns_from (max m x) xs). d \<le> 0) \<and>
         ((\<forall>d\<in>set (drawdowns_from (max m x) xs). d = 0) \<longleftrightarrow> sorted (max m x # xs))"
    using Cons.IH[of "max m x"] Cons.prems by simp
  have "(m \<le> x \<and> sorted (max m x # xs)) \<longleftrightarrow> sorted (m # x # xs)"
    by (auto simp: max_def)
  then show ?case using le z ih by auto
qed

lemma foldl_fmin_Fin: "foldl fmin (Fin d) (map Fin ds) = Fin (foldl min d ds)"
  by (induction ds arbitrary: d) (simp_all add: fmin_Fin)

lemma foldl_min_sign:
  assumes "d \<le> 0" and "\<forall>x\<in>set ds. x \<le> (0::real)"
  shows "foldl min d ds \<le> 0 \<and> (foldl min d ds = 0 \<longleftrightarrow> d = 0 \<and> (\<forall>x\<in>set ds. x = 0))"
  using assms
proof (induction ds arbitrary: d)
  case Nil
  then show ?case by simp
next
  case (Cons x xs)
  have "min d x \<le> 0" using Cons.prems by simp
  moreover have "min d x = 0 \<longleftrightarrow> d = 0 \<and> x = 0"
    using Cons.prems by (auto simp: min_def)
  ultimately show ?case using Cons.IH[of "min d x"] Cons.prems by auto
qed

lemma max_drawdown_Fin:
  assumes "rs \<noteq> []" and "\<forall>r\<in>set rs. 0 < r"
  shows "\<exists>d. max_drawdown_of (map Fin rs) = Fin d \<and> d \<le> 0 \<and> (d = 0 \<longleftrightarrow> sorted rs)"
proof -
  obtain r rest where rs: "rs = r # rest" using assms(1) by (cases rs) auto
  have r: "0 < r" using assms(2) rs by simp
  have first: "fmax MInf (Fin r) = Fin r" by (simp add: fmax_def)
  have "map (\<lambda>(v, m). fdiv (fsub v m) m) (zip (map Fin rs) (cummax (map Fin rs))) =
      Fin 0 # map Fin (drawdowns_from r rest)"
    using drawdowns_Fin[of rest r] assms(2) r
    by (simp add: rs cummax_def first isna_def fsub_def comp_def)
  then have md: "max_drawdown_of (map Fin rs) = Fin (foldl min 0 (drawdowns_from r rest))"
    using dropna_Fin[of "0 # drawdowns_from r rest"]
    by (simp add: max_drawdown_of_def min_skipna_def foldl_fmin_Fin)
  have sg: "(\<forall>d\<in>set (drawdowns_from r rest). d \<le> 0) \<and>
         ((\<forall>d\<in>set (drawdowns_from r rest). d = 0) \<longleftrightarrow> sorted (r # rest))"
    using drawdowns_from_sign[of rest r] assms(2) rs by simp
  have "foldl min 0 (drawdowns_from r rest) \<le> 0 \<and>
      (foldl min 0 (drawdowns_from r rest) = 0 \<longleftrightarrow> (\<forall>x\<in>set (drawdowns_from r rest). x = 0))"
    using foldl_min_sign[of 0 "drawdowns_from r rest"] sg by simp
  then show ?thesis using md sg rs by simp
qed



subsection \<open>The order of the ranking\<close>








lemma fl_key_order:
  assumes "a \<noteq> NaN" and "b \<noteq> NaN" and "fl_key a \<le> fl_key b"
  shows "\<not> flt b a"
  using assms by (cases a; cases b) auto





lemma argsort_backward_ascending: "argsort_ascending argsort_backward"
  unfolding argsort_ascending_def
proof (intro allI impI)
  fix xs :: "fl list"
  assume nonan: "NaN \<notin> set xs"
  let ?f = "\<lambda>i. fl_key (xs ! i)"
  have "sorted (map ?f (sort_key ?f (rev [0..<length xs])))" by (rule sorted_sort_key)
  then have s: "sorted_wrt (\<lambda>i j. ?f i \<le> ?f j) (sort_key ?f (rev [0..<length xs]))"
    by (simp add: sorted_map)
  show "sorted_wrt (\<lambda>i j. \<not> flt (xs ! j) (xs ! i)) (argsort_backward xs)"
    unfolding argsort_backward_def
  proof (rule sorted_wrt_mono_rel[OF _ s])
    fix i j
    assume "i \<in> set (sort_key ?f (rev [0..<length xs]))"
      and "j \<in> set (sort_key ?f (rev [0..<length xs]))"
      and le: "?f i \<le> ?f j"
    then have "xs ! i \<noteq> NaN" and "xs ! j \<noteq> NaN"
      using nonan by (auto simp: in_set_conv_nth)
    then show "\<not> flt (xs ! j) (xs ! i)" using le by (rule fl_key_order)
  qed
qed

section \<open>The properties\<close>

subsection \<open>Weights of a step\<close>




subsection \<open>A day without a held stock\<close>

text \<open>
  C2 (as amended). On a day on which none of the selected stocks has a price, the step
  raises no error and leaves the state of the loop as it is: the running value is carried
  forward, and no value, no return and no holdings entry is appended for that day.
\<close>

theorem degenerate_day_skipped:
  assumes "argsort_perm (argsort e)" and "t + 1 < length (rows P)" and "t < length (rows S)"
    and "set (columns S) \<subseteq> set (columns P)"
    and "valid_stocks_at e P S t = []"
  shows "sentiment_step e P S t st = Inr st"
  using sentiment_step_char[OF assms(1-4), of st] assms(5) by simp

theorem degenerate_day_skipped_witness:
  "valid_stocks_at (module_env argsort_stable) prices_gap scores_plain 0 = [] \<and>
   sentiment_step (module_env argsort_stable) prices_gap scores_plain 0
     (init_state (module_env argsort_stable)) = Inr (init_state (module_env argsort_stable))"
proof -
  let ?e = "module_env argsort_stable"
  have v: "valid_stocks_at ?e prices_gap scores_plain 0 = []"
    by code_simp
  have h2: "0 + 1 < length (rows prices_gap)" by (simp add: prices_gap_def)
  have h3: "0 < length (rows scores_plain)" by (simp add: scores_plain_def)
  have h4: "set (columns scores_plain) \<subseteq> set (columns prices_gap)"
    by (simp add: scores_plain_def prices_gap_def)
  show ?thesis
    using degenerate_day_skipped[OF env_perm h2 h3 h4 v] v by simp
qed

text \<open>
  Three dates, the first day without a held stock: the value table has no row for the
  skipped day. Its row for the second date carries the value and the return of the step from
  the second to the third date (102500 and 1/40), not the value of the first date and 0.
\<close>

theorem degenerate_day_counterexample:
  "sentiment_trading_strategy (module_env argsort_stable) prices_late scores_three =
     Inr \<lparr>r_df = [\<lparr>Date = 0, Portfolio_Value = Fin 100000, Daily_Return = Fin 0\<rparr>,
                  \<lparr>Date = 1, Portfolio_Value = Fin 102500, Daily_Return = Fin (1 / 40)\<rparr>],
          r_holdings = [[''A'', ''B'']],
          r_report = [(2, Fin 102500, [(''A'', Fin (20 / 41)), (''B'', Fin (20 / 41))])]\<rparr> \<and>
   valid_stocks_at (module_env argsort_stable) prices_late scores_three 0 = [] \<and>
   length (rows prices_late) = 3"
  by code_simp

subsection \<open>Lengths of the results\<close>

text \<open>
  C3 (as amended). For aligned tables the ranked simulator returns without error; its value
  table has one row for the first date and one for every day on which a stock is held, and
  \<open>holdings\<close> has one entry for every such day. A day on which none of the selected stocks
  has a price adds no row, so the table has fewer rows than the price table has dates as soon
  as there is such a day.
\<close>

theorem ranked_series_lengths:
  assumes "argsort_perm (argsort e)" and "aligned P S"
  shows "\<exists>res. sentiment_trading_strategy e P S = Inr res \<and>
     length (r_df res) = 1 + length (moving_days e P S [0..<length (rows P) - 1]) \<and>
     length (r_holdings res) = length (moving_days e P S [0..<length (rows P) - 1]) \<and>
     length (moving_days e P S [0..<length (rows P) - 1]) \<le> length (rows P) - 1"
proof -
  let ?ts = "[0..<length (rows P) - 1]"
  let ?m = "length (moving_days e P S ?ts)"
  have ne: "rows P \<noteq> []" and sub: "set (columns S) \<subseteq> set (columns P)"
    and len: "length (rows S) = length (rows P)"
    using assms(2) by (simp_all add: aligned_def)
  have rng: "\<forall>t\<in>set ?ts. t + 1 < length (rows P) \<and> t < length (rows S)"
    using len by auto
  obtain st where loop: "sentiment_loop e P S ?ts (init_state e) = Inr st"
    and lv: "length (portfolio_value st) = 1 + ?m"
    and lr: "length (daily_returns st) = ?m"
    and lh: "length (holdings st) = ?m"
    using sentiment_loop_lengths[OF assms(1) sub rng, of "init_state e"]
    by (auto simp: init_state_def)
  have m_le: "?m \<le> length (rows P) - 1"
    using length_filter_le[of _ ?ts] by (simp add: moving_days_def)
  have rows_pos: "0 < length (rows P)" using ne by simp
  have mn: "min (length (portfolio_value st)) (length (rows P)) = 1 + ?m"
    using lv m_le rows_pos by linarith
  have "sentiment_trading_strategy e P S =
      Inr \<lparr>r_df = map (\<lambda>(d, v, r). \<lparr>Date = d, Portfolio_Value = v, Daily_Return = r\<rparr>)
                     (zip [0..<1 + ?m] (zip (portfolio_value st) (Fin 0 # daily_returns st))),
           r_holdings = holdings st, r_report = report st\<rparr>"
    unfolding sentiment_trading_strategy_def make_df_def loop
    using ne lv lr mn by simp
  then show ?thesis
    using lv lr lh m_le by simp
qed

theorem ranked_series_lengths_witness:
  "argsort_perm (argsort (module_env argsort_stable)) \<and> aligned prices_gap scores_plain \<and>
   (\<exists>res. sentiment_trading_strategy (module_env argsort_stable) prices_gap scores_plain = Inr res \<and>
      length (r_df res) =
        1 + length (moving_days (module_env argsort_stable) prices_gap scores_plain
                      [0..<length (rows prices_gap) - 1]) \<and>
      length (r_holdings res) =
        length (moving_days (module_env argsort_stable) prices_gap scores_plain
                  [0..<length (rows prices_gap) - 1]) \<and>
      length (moving_days (module_env argsort_stable) prices_gap scores_plain
                [0..<length (rows prices_gap) - 1]) \<le> length (rows prices_gap) - 1)"
proof -
  have p: "argsort_perm (argsort (module_env argsort_stable))"
    by (simp add: module_env_def argsort_stable_perm)
  have a: "aligned prices_gap scores_plain"
    by (simp add: aligned_def prices_gap_def scores_plain_def)
  show ?thesis using ranked_series_lengths[OF p a] p a by blast
qed

text \<open>
  Two dates, and no price on the first for the two best stocks: the value table has one row,
  not two, and \<open>holdings\<close> is empty, not of length one.
\<close>

theorem ranked_series_lengths_counterexample:
  "length (rows prices_gap) = 2 \<and>
   sentiment_trading_strategy (module_env argsort_stable) prices_gap scores_plain =
     Inr \<lparr>r_df = [\<lparr>Date = 0, Portfolio_Value = Fin 100000, Daily_Return = Fin 0\<rparr>],
          r_holdings = [], r_report = []\<rparr>"
  by code_simp

subsection \<open>A held stock without a next price\<close>

text \<open>
  C4. In a step in which stocks are held, the recorded return is the sum over the held stocks
  of their contributions, where a stock without a next price contributes exactly zero and
  every other stock its return divided by the number of all held stocks; leaving the stocks
  without a next price out of the sum does not change it, and no error is raised.
\<close>

theorem missing_next_price_adds_nothing:
  assumes "argsort_perm (argsort e)" and "t + 1 < length (rows P)" and "t < length (rows S)"
    and "set (columns S) \<subseteq> set (columns P)"
    and "valid_stocks_at e P S t \<noteq> []"
  shows "\<exists>st'. sentiment_step e P S t st = Inr st' \<and>
     daily_returns st' = daily_returns st @
       [fsum (map (contribution P t (length (valid_stocks_at e P S t))) (valid_stocks_at e P S t))] \<and>
     fsum (map (contribution P t (length (valid_stocks_at e P S t))) (valid_stocks_at e P S t)) =
     fsum (map (contribution P t (length (valid_stocks_at e P S t)))
            (filter (\<lambda>stock. \<not> isna ((rows P ! (t + 1)) stock)) (valid_stocks_at e P S t)))"
proof -
  have drop: "foldl fadd acc (map (contribution P t n) ss) =
      foldl fadd acc (map (contribution P t n) (filter (\<lambda>stock. \<not> isna ((rows P ! (t + 1)) stock)) ss))"
    for acc n ss
    by (induction ss arbitrary: acc) (simp_all add: contribution_def fadd_zero_right)
  show ?thesis
    using sentiment_step_char[OF assms(1-4), of st] assms(5) drop
    by (simp add: Let_def fsum_def)
qed

theorem missing_next_price_adds_nothing_witness:
  "valid_stocks_at (module_env argsort_stable) prices_drop scores_plain 0 = [''A'', ''B''] \<and>
   isna ((rows prices_drop ! 1) ''A'') \<and>
   fsum (map (contribution prices_drop 0 2) [''A'', ''B'']) = Fin (1 / 20) \<and>
   (\<exists>st'. sentiment_step (module_env argsort_stable) prices_drop scores_plain 0
       (init_state (module_env argsort_stable)) = Inr st' \<and>
     daily_returns st' = daily_returns (init_state (module_env argsort_stable) :: string sim_state) @
       [fsum (map (contribution prices_drop 0
                     (length (valid_stocks_at (module_env argsort_stable) prices_drop scores_plain 0)))
                (valid_stocks_at (module_env argsort_stable) prices_drop scores_plain 0))] \<and>
     fsum (map (contribution prices_drop 0
                  (length (valid_stocks_at (module_env argsort_stable) prices_drop scores_plain 0)))
             (valid_stocks_at (module_env argsort_stable) prices_drop scores_plain 0)) =
     fsum (map (contribution prices_drop 0
                  (length (valid_stocks_at (module_env argsort_stable) prices_drop scores_plain 0)))
             (filter (\<lambda>stock. \<not> isna ((rows prices_drop ! (0 + 1)) stock))
                (valid_stocks_at (module_env argsort_stable) prices_drop scores_plain 0))))"
proof -
  let ?e = "module_env argsort_stable"
  have v: "valid_stocks_at ?e prices_drop scores_plain 0 = [''A'', ''B'']"
    by code_simp
  have h2: "0 + 1 < length (rows prices_drop)" by (simp add: prices_drop_def)
  have h3: "0 < length (rows scores_plain)" by (simp add: scores_plain_def)
  have h4: "set (columns scores_plain) \<subseteq> set (columns prices_drop)"
    by (simp add: scores_plain_def prices_drop_def)
  have h5: "valid_stocks_at ?e prices_drop scores_plain 0 \<noteq> []" by (simp add: v)
  have c: "fsum (map (contribution prices_drop 0 2) [''A'', ''B'']) = Fin (1 / 20)"
    by code_simp
  have n: "isna ((rows prices_drop ! 1) ''A'')" by code_simp
  show ?thesis
    by (intro conjI v c n missing_next_price_adds_nothing[OF env_perm h2 h3 h4 h5])
qed

subsection \<open>Order of the ranking\<close>




subsection \<open>Stocks without a score\<close>




subsection \<open>Maximum drawdown\<close>

text \<open>
  C7. For a value table with at least one row whose values are finite and positive, the
  metrics engine returns a maximum drawdown that is at most 0, and it is 0 exactly when the
  values never decrease from one row to the next.
\<close>

theorem max_drawdown_bound:
  assumes "map Portfolio_Value df = map Fin rs" and "rs \<noteq> []" and "\<forall>r\<in>set rs. 0 < r"
  shows "\<exists>m d. calculate_metrics e df risk_free_rate = Inr m \<and> Max_Drawdown m = Fin d \<and>
     d \<le> 0 \<and> (d = 0 \<longleftrightarrow> sorted rs)"
proof -
  have ne: "df \<noteq> []" using assms(1,2) by auto
  obtain d where d: "max_drawdown_of (map Fin rs) = Fin d" "d \<le> 0" "d = 0 \<longleftrightarrow> sorted rs"
    using max_drawdown_Fin[OF assms(2,3)] by blast
  show ?thesis
    using ne d assms(1) by (simp add: calculate_metrics_def Let_def)
qed

theorem max_drawdown_bound_witness:
  "map Portfolio_Value df_rising = map Fin [100000, 102500] \<and>
   max_drawdown_of [Fin 100000, Fin 102500] = Fin 0 \<and>
   max_drawdown_of [Fin 100, Fin 80, Fin 120, Fin 90] = Fin (- 1 / 4) \<and>
   (\<exists>m d. calculate_metrics (module_env argsort_stable) df_rising risk_free_rate_default = Inr m \<and>
      Max_Drawdown m = Fin d \<and> d \<le> 0 \<and> (d = 0 \<longleftrightarrow> sorted [100000, 102500 :: real]))"
proof -
  have v: "map Portfolio_Value df_rising = map Fin [100000, 102500]"
    by (simp add: df_rising_def)
  have n: "[100000, 102500 :: real] \<noteq> []" by simp
  have p: "\<forall>r\<in>set [100000, 102500 :: real]. 0 < r" by simp
  have x: "max_drawdown_of [Fin 100000, Fin 102500] = Fin 0" by code_simp
  have y: "max_drawdown_of [Fin 100, Fin 80, Fin 120, Fin 90] = Fin (- 1 / 4)" by code_simp
  show ?thesis
    by (intro conjI v x y max_drawdown_bound[OF v n p])
qed

subsection \<open>Sharpe ratio of constant returns\<close>



subsection \<open>Sign of the portfolio values\<close>




subsection \<open>A stock without a first price\<close>




end
